theory Spec2Isabelle
  imports Main "HOL-Library.Word"
begin

section \<open>The Ensenso node: messages, buffers and the driver\<close>

text \<open>
  A shallow embedding of \<^verbatim>\<open>src/ensenso_node.cpp\<close>: the class \<^verbatim>\<open>HandeyeCalibration\<close>
  with its constructor, destructor, \<^verbatim>\<open>grabberCallback\<close> and \<^verbatim>\<open>toImageMsg\<close>.
  Everything the node does to the outside (warnings, advertisements, calls into the
  grabber, publications) is recorded, in program order, as a list of events.
\<close>

subsection \<open>Headers and messages\<close>

text \<open>\<^verbatim>\<open>ros::Time\<close>: seconds and nanoseconds, both unsigned 32-bit.\<close>

record rostime =
  sec :: "32 word"
  nsec :: "32 word"

text \<open>\<^verbatim>\<open>std_msgs::Header\<close>.\<close>

record Header =
  seq :: "32 word"
  stamp :: rostime
  frame_id :: string

text \<open>\<^verbatim>\<open>pcl::PCLHeader\<close>: the stamp is a 64-bit count of microseconds.\<close>

record PCLHeader =
  pcl_seq :: "32 word"
  pcl_stamp :: "64 word"
  pcl_frame_id :: string

text \<open>\<^verbatim>\<open>pcl::PCLImage\<close>, the buffer type of the raw and rectified images.\<close>

record PCLImage =
  pcl_header :: PCLHeader
  pcl_height :: "32 word"
  pcl_width :: "32 word"
  pcl_encoding :: string
  pcl_is_bigendian :: "8 word"
  pcl_step :: "32 word"
  pcl_data :: "8 word list"

text \<open>
  \<^verbatim>\<open>sensor_msgs::Image\<close>. The field \<^verbatim>\<open>is_bigendian\<close>, a constant of the platform, is
  left out.
\<close>

record Image =
  header :: Header
  height :: "32 word"
  width :: "32 word"
  encoding :: string
  step :: "32 word"
  data :: "8 word list"

text \<open>
  \<^verbatim>\<open>sensor_msgs::CameraInfo\<close>: a header and the calibration payload (size, distortion
  model, D, K, R, P). The node never looks into the payload, so its type is a parameter.
\<close>

record 'c CameraInfo =
  info_header :: Header
  calibration :: 'c

text \<open>
  \<^verbatim>\<open>pcl::PointCloud<pcl::PointXYZ>\<close>. The points are carried, never computed with, so
  their type is a parameter.
\<close>

record 'p PointCloud =
  cloud_header :: PCLHeader
  points :: "'p list"
  cloud_width :: "32 word"
  cloud_height :: "32 word"
  is_dense :: bool

text \<open>
  The three arguments of \<^verbatim>\<open>grabberCallback\<close>: the cloud and the two
  \<^verbatim>\<open>PairOfImages\<close>, all borrowed from the grabber through shared pointers.
\<close>

record 'p FrameTriple =
  cloud :: "'p PointCloud"
  rawimages :: "PCLImage \<times> PCLImage"
  rectifiedimages :: "PCLImage \<times> PCLImage"

subsection \<open>The conversion \<^verbatim>\<open>toImageMsg\<close>\<close>

text \<open>
  The two OpenCV matrix types the conversion uses, with the size of one element in bytes,
  and a \<^verbatim>\<open>cv::Mat\<close> header over a borrowed buffer: \<^verbatim>\<open>rows\<close> and \<^verbatim>\<open>cols\<close> are signed
  \<^verbatim>\<open>int\<close>s.
\<close>

datatype mat_type = CV_8UC1 | CV_8UC3

fun elemSize :: "mat_type \<Rightarrow> int" where
  "elemSize CV_8UC1 = 1"
| "elemSize CV_8UC3 = 3"

record Mat =
  rows :: int
  cols :: int
  mtype :: mat_type
  mdata :: "8 word list"

record CvImage =
  cv_header :: Header
  cv_encoding :: string
  cv_image :: Mat

text \<open>
  \<^verbatim>\<open>cv_bridge::CvImage::toImageMsg\<close>, as the library defines it: the header and the
  encoding are copied, \<^verbatim>\<open>height\<close> and \<^verbatim>\<open>width\<close> are the matrix's rows and columns
  converted to unsigned 32 bits, \<^verbatim>\<open>step = cols * elemSize\<close> truncated to 32 bits, and
  \<^verbatim>\<open>size = step * rows\<close> (an unsigned 32-bit product) bytes are copied from the buffer.
  The copy is modelled for buffers that hold at least \<^verbatim>\<open>size\<close> bytes (see
  \<open>buffer_covers\<close> below); what the C++ reads past the end of a shorter buffer is not
  defined by the language and is not part of the model.
\<close>

definition CvImage_toImageMsg :: "CvImage \<Rightarrow> Image" where
  "CvImage_toImageMsg cvi =
     (let m = cv_image cvi;
          st = (word_of_int (cols m * elemSize (mtype m)) :: 32 word);
          size = unat (st * word_of_int (rows m))
      in \<lparr>header = cv_header cvi,
          height = word_of_int (rows m),
          width = word_of_int (cols m),
          encoding = cv_encoding cvi,
          step = st,
          data = take size (mdata m)\<rparr>)"

text \<open>
  \<^verbatim>\<open>HandeyeCalibration::toImageMsg\<close>. The argument is passed by value. The second
  parameter is the reading of \<^verbatim>\<open>ros::Time::now()\<close> taken inside the function.
\<close>

definition toImageMsg :: "PCLImage \<Rightarrow> rostime \<Rightarrow> Image" where
  "toImageMsg pcl_image now =
     (let image_array = pcl_data pcl_image;
          (ty, enc) = (if pcl_encoding pcl_image = ''CV_8UC3''
                       then (CV_8UC3, ''bgr8'') else (CV_8UC1, ''mono8''));
          image_mat = \<lparr>rows = sint (pcl_height pcl_image),
                       cols = sint (pcl_width pcl_image),
                       mtype = ty, mdata = image_array\<rparr>;
          hdr = \<lparr>seq = 0, stamp = now, frame_id = ''world''\<rparr>
      in CvImage_toImageMsg \<lparr>cv_header = hdr, cv_encoding = enc, cv_image = image_mat\<rparr>)"

text \<open>
  The buffer holds the bytes the conversion copies: width times element size times
  height, computed as the library computes it, in unsigned 32-bit arithmetic.
\<close>

definition buffer_covers :: "PCLImage \<Rightarrow> bool" where
  "buffer_covers im =
     (unat (pcl_width im * (if pcl_encoding im = ''CV_8UC3'' then 3 else 1) * pcl_height im)
        \<le> length (pcl_data im))"

subsection \<open>The grabber, seen from the node\<close>

text \<open>
  The calls the node makes on \<^verbatim>\<open>pcl::EnsensoGrabber\<close> (declared in
  \<^verbatim>\<open>ensenso/ensenso_grabber.h\<close>, whose code the node only calls), and \<^verbatim>\<open>stop\<close>,
  which belongs to the grabber's interface and which the node never calls.
\<close>

datatype device_call =
    OpenDevice string
  | OpenTcpPort
  | ConfigureCapture
  | EnableProjector bool
  | EnableFrontLight bool
  | RegisterCallback
  | Start
  | Stop
  | CloseTcpPort
  | CloseDevice
  | GetCameraInfo string

text \<open>
  What a call on the grabber can do, as far as the node can tell: return reporting
  success, return reporting failure in a status that the node discards (every call in the
  node is an expression statement), or throw. The node has no \<^verbatim>\<open>try\<close> block, so an
  exception leaves the function that made the call.
\<close>

datatype status = Done | Refused | Thrown

datatype error = DeviceException device_call

text \<open>
  The grabber is a parameter of the model: \<open>command\<close> gives the outcome of each call,
  \<open>getCameraInfo\<close> the outcome of the intrinsics query for an eye together with the
  record the query leaves in its output argument (which the node default-constructs
  just before the call).
\<close>

record 'c EnsensoGrabber =
  command :: "device_call \<Rightarrow> status"
  getCameraInfo :: "string \<Rightarrow> status \<times> 'c CameraInfo"

subsection \<open>Publishers and events\<close>

text \<open>
  A publisher as the node creates it: topic, queue size and the latch flag
  (\<^verbatim>\<open>advertiseCamera\<close> and \<^verbatim>\<open>advertise\<close> of \<^verbatim>\<open>image_transport\<close> default it to false).
\<close>

record Publisher =
  topic :: string
  queue_size :: nat
  latch :: bool

text \<open>
  What the constructor and the destructor do to the outside: a warning on the log, the
  advertisement of a channel, a call on the grabber.
\<close>

datatype node_event =
    Warn string
  | Advertise Publisher
  | Device device_call

text \<open>
  What the callback does to the outside: an intrinsics query for an eye, and the
  publications (an image with its intrinsics record, an image, a cloud).
\<close>

datatype ('c, 'p) event =
    Query string
  | PublishCamera Publisher Image "'c CameraInfo"
  | PublishImage Publisher Image
  | PublishCloud Publisher "'p PointCloud"

text \<open>
  The members of the class, named as in the source without the trailing underscore;
  \<^verbatim>\<open>ensenso_ptr_\<close> is the grabber parameter.
\<close>

record HandeyeCalibration =
  l_raw_pub :: Publisher
  r_raw_pub :: Publisher
  l_rectified_pub :: Publisher
  r_rectified_pub :: Publisher
  cloud_pub :: Publisher
  camera_frame_id :: string

text \<open>
  A straight line of calls on the grabber: each is recorded; the first one that throws
  ends the enclosing function with that exception.
\<close>

fun run_calls :: "(device_call \<Rightarrow> status) \<Rightarrow> device_call list
    \<Rightarrow> error option \<times> node_event list" where
  "run_calls drv [] = (None, [])"
| "run_calls drv (c # cs) =
     (if drv c = Thrown then (Some (DeviceException c), [Device c])
      else (fst (run_calls drv cs), Device c # snd (run_calls drv cs)))"

subsection \<open>Parameters\<close>

text \<open>
  The private parameter namespace. \<^verbatim>\<open>NodeHandle::param\<close> assigns the stored value when
  the parameter exists with the requested type and the default otherwise;
  \<^verbatim>\<open>hasParam\<close> tells whether the name exists at all.
\<close>

datatype XmlRpcValue = XString string | XBool bool | XInt int | XOther

type_synonym params = "string \<Rightarrow> XmlRpcValue option"

definition param_string :: "params \<Rightarrow> string \<Rightarrow> string \<Rightarrow> string" where
  "param_string ps name dflt = (case ps name of Some (XString s) \<Rightarrow> s | _ \<Rightarrow> dflt)"

definition param_bool :: "params \<Rightarrow> string \<Rightarrow> bool \<Rightarrow> bool" where
  "param_bool ps name dflt = (case ps name of Some (XBool b) \<Rightarrow> b | _ \<Rightarrow> dflt)"

definition hasParam :: "params \<Rightarrow> string \<Rightarrow> bool" where
  "hasParam ps name = (ps name \<noteq> None)"

text \<open>A \<^verbatim>\<open>bool\<close> written to a stream prints as 0 or 1.\<close>

definition show_bool :: "bool \<Rightarrow> string" where
  "show_bool b = (if b then ''1'' else ''0'')"

definition not_found :: "string \<Rightarrow> string \<Rightarrow> node_event" where
  "not_found name val = Warn (''Parameter [~'' @ name @ ''] not found, using default: '' @ val)"

subsection \<open>Constructor and destructor\<close>

text \<open>
  The constructor, in its order: the four parameters with their warnings, the five
  advertisements, then the calls on the grabber (the allocation of the grabber object,
  \<^verbatim>\<open>ensenso_ptr_.reset(new pcl::EnsensoGrabber)\<close>, is not an event). The result is the
  constructed object, or the exception that left the constructor.
\<close>

definition HandeyeCalibration_ctor :: "params \<Rightarrow> 'c EnsensoGrabber
    \<Rightarrow> (error + HandeyeCalibration) \<times> node_event list" where
  "HandeyeCalibration_ctor nh_private ensenso =
     (let serial_no = param_string nh_private ''serial_no'' ''150533'';
          w1 = (if \<not> hasParam nh_private ''serial_no''
                then [not_found ''serial_no'' serial_no] else []);
          frame = param_string nh_private ''camera_frame_id'' ''ensenso_optical_frame'';
          w2 = (if \<not> hasParam nh_private ''camera_frame_id''
                then [not_found ''camera_frame_id'' frame] else []);
          front_light = param_bool nh_private ''front_light'' False;
          w3 = (if \<not> hasParam nh_private ''front_light''
                then [not_found ''front_light'' (show_bool front_light)] else []);
          projector = param_bool nh_private ''projector'' False;
          w4 = (if \<not> hasParam nh_private ''projector''
                then [not_found ''projector'' (show_bool projector)] else []);
          this = \<lparr>l_raw_pub = \<lparr>topic = ''left/image_raw'', queue_size = 2, latch = False\<rparr>,
                  r_raw_pub = \<lparr>topic = ''right/image_raw'', queue_size = 2, latch = False\<rparr>,
                  l_rectified_pub = \<lparr>topic = ''left/image_rect'', queue_size = 2, latch = False\<rparr>,
                  r_rectified_pub = \<lparr>topic = ''right/image_rect'', queue_size = 2, latch = False\<rparr>,
                  cloud_pub = \<lparr>topic = ''depth/points'', queue_size = 2, latch = True\<rparr>,
                  camera_frame_id = frame\<rparr>;
          ads = [Advertise (l_raw_pub this), Advertise (r_raw_pub this),
                 Advertise (l_rectified_pub this), Advertise (r_rectified_pub this),
                 Advertise (cloud_pub this)];
          ran = run_calls (command ensenso)
                  [OpenDevice serial_no, OpenTcpPort, ConfigureCapture,
                   EnableProjector projector, EnableFrontLight front_light,
                   RegisterCallback, Start]
      in ((case fst ran of None \<Rightarrow> Inr this | Some e \<Rightarrow> Inl e),
          w1 @ w2 @ w3 @ w4 @ ads @ snd ran))"

text \<open>
  The destructor: two calls on the grabber. The first component of the result is the
  exception that left the destructor, if any.
\<close>

definition HandeyeCalibration_dtor :: "'c EnsensoGrabber
    \<Rightarrow> error option \<times> node_event list" where
  "HandeyeCalibration_dtor ensenso = run_calls (command ensenso) [CloseTcpPort, CloseDevice]"

subsection \<open>The capture callback\<close>

text \<open>
  \<^verbatim>\<open>CameraPublisher::publish(image, info, stamp)\<close>: the library sets the stamp of both
  headers to \<^verbatim>\<open>stamp\<close> and publishes the pair.
\<close>

definition publish_camera :: "Publisher \<Rightarrow> Image \<Rightarrow> 'c CameraInfo \<Rightarrow> rostime
    \<Rightarrow> ('c, 'p) event" where
  "publish_camera pub img info t =
     PublishCamera pub (img\<lparr>header := (header img)\<lparr>stamp := t\<rparr>\<rparr>)
                       (info\<lparr>info_header := (info_header info)\<lparr>stamp := t\<rparr>\<rparr>)"

text \<open>
  The arguments of a raw publication, \<^verbatim>\<open>*toImageMsg(image)\<close> and \<^verbatim>\<open>ros::Time::now()\<close>,
  each read the clock once; C++ leaves the order of the two to the compiler. The clock
  is given by its successive readings during one invocation of the callback (reading
  \<open>k\<close> is the \<open>k\<close>-th call of \<^verbatim>\<open>ros::Time::now()\<close>, counted from 0).
\<close>

datatype arg_order = LeftToRight | RightToLeft

definition raw_args :: "arg_order \<Rightarrow> (nat \<Rightarrow> rostime) \<Rightarrow> nat \<Rightarrow> PCLImage
    \<Rightarrow> Image \<times> rostime" where
  "raw_args ord now k im =
     (case ord of
        LeftToRight \<Rightarrow> (toImageMsg im (now k), now (Suc k))
      | RightToLeft \<Rightarrow> (toImageMsg im (now (Suc k)), now k))"

text \<open>
  \<^verbatim>\<open>grabberCallback\<close>. It returns how the invocation ended, the events in order, and
  the borrowed frame triple as the invocation leaves it.
\<close>

definition grabberCallback :: "HandeyeCalibration \<Rightarrow> 'c EnsensoGrabber \<Rightarrow> arg_order
    \<Rightarrow> (nat \<Rightarrow> rostime) \<Rightarrow> 'p FrameTriple
    \<Rightarrow> (error + unit) \<times> ('c, 'p) event list \<times> 'p FrameTriple" where
  "grabberCallback this ensenso ord now t =
     (if fst (getCameraInfo ensenso ''Left'') = Thrown
      then (Inl (DeviceException (GetCameraInfo ''Left'')),
            [Query ''Left''], t)
      else if fst (getCameraInfo ensenso ''Right'') = Thrown
      then (Inl (DeviceException (GetCameraInfo ''Right'')),
            [Query ''Left'', Query ''Right''], t)
      else
        let linfo0 = snd (getCameraInfo ensenso ''Left'');
            rinfo0 = snd (getCameraInfo ensenso ''Right'');
            linfo = linfo0\<lparr>info_header := (info_header linfo0)\<lparr>frame_id := camera_frame_id this\<rparr>\<rparr>;
            rinfo = rinfo0\<lparr>info_header := (info_header rinfo0)\<lparr>frame_id := camera_frame_id this\<rparr>\<rparr>;
            l = raw_args ord now 0 (fst (rawimages t));
            r = raw_args ord now 2 (snd (rawimages t));
            lrect = toImageMsg (fst (rectifiedimages t)) (now 4);
            rrect = toImageMsg (snd (rectifiedimages t)) (now 5);
            cloud' = (cloud t)\<lparr>cloud_header :=
                        (cloud_header (cloud t))\<lparr>pcl_frame_id := camera_frame_id this\<rparr>\<rparr>
        in (Inr (),
            [Query ''Left'', Query ''Right'',
             publish_camera (l_raw_pub this) (fst l) linfo (snd l),
             publish_camera (r_raw_pub this) (fst r) rinfo (snd r),
             PublishImage (l_rectified_pub this) lrect,
             PublishImage (r_rectified_pub this) rrect,
             PublishCloud (cloud_pub this) cloud'],
            t\<lparr>cloud := cloud'\<rparr>))"

subsection \<open>Reading the trace\<close>

text \<open>The publisher an event publishes on, if it is a publication.\<close>

fun published_by :: "('c, 'p) event \<Rightarrow> Publisher list" where
  "published_by (PublishCamera pub _ _) = [pub]"
| "published_by (PublishImage pub _) = [pub]"
| "published_by (PublishCloud pub _) = [pub]"
| "published_by _ = []"

definition publications :: "('c, 'p) event list \<Rightarrow> ('c, 'p) event list" where
  "publications es = filter (\<lambda>e. published_by e \<noteq> []) es"

text \<open>The calls on the grabber, and the advertisements, that a trace holds.\<close>

fun device_calls :: "node_event list \<Rightarrow> device_call list" where
  "device_calls [] = []"
| "device_calls (Device c # es) = c # device_calls es"
| "device_calls (_ # es) = device_calls es"

fun is_advertise :: "node_event \<Rightarrow> bool" where
  "is_advertise (Advertise _) = True"
| "is_advertise _ = False"

fun is_warn :: "node_event \<Rightarrow> bool" where
  "is_warn (Warn _) = True"
| "is_warn _ = False"

text \<open>The coordinate-frame labels and the ROS time stamps an event puts on the wire.\<close>

fun frame_labels :: "('c, 'p) event \<Rightarrow> string list" where
  "frame_labels (PublishCamera _ img info) =
     [frame_id (header img), frame_id (info_header info)]"
| "frame_labels (PublishImage _ img) = [frame_id (header img)]"
| "frame_labels (PublishCloud _ c) = [pcl_frame_id (cloud_header c)]"
| "frame_labels _ = []"

fun ros_stamps :: "('c, 'p) event \<Rightarrow> rostime list" where
  "ros_stamps (PublishCamera _ img info) =
     [stamp (header img), stamp (info_header info)]"
| "ros_stamps (PublishImage _ img) = [stamp (header img)]"
| "ros_stamps _ = []"

text \<open>The images, the intrinsics payloads and the clouds an event publishes.\<close>

fun images_of :: "('c, 'p) event \<Rightarrow> Image list" where
  "images_of (PublishCamera _ img _) = [img]"
| "images_of (PublishImage _ img) = [img]"
| "images_of _ = []"

fun calibrations_of :: "('c, 'p) event \<Rightarrow> 'c list" where
  "calibrations_of (PublishCamera _ _ info) = [calibration info]"
| "calibrations_of _ = []"

fun clouds_of :: "('c, 'p) event \<Rightarrow> 'p PointCloud list" where
  "clouds_of (PublishCloud _ c) = [c]"
| "clouds_of _ = []"

text \<open>An image message without its header.\<close>

definition body :: "Image \<Rightarrow> 32 word \<times> 32 word \<times> string \<times> 32 word \<times> 8 word list" where
  "body img = (height img, width img, encoding img, step img, data img)"

fun all_equal :: "'a list \<Rightarrow> bool" where
  "all_equal [] = True"
| "all_equal [x] = True"
| "all_equal (x # y # zs) = (x = y \<and> all_equal (y # zs))"

subsection \<open>Late subscribers\<close>

datatype ('c, 'p) message =
    ImageMsg Image
  | CameraInfoMsg "'c CameraInfo"
  | CloudMsg "'p PointCloud"

fun published_on :: "Publisher \<Rightarrow> ('c, 'p) event \<Rightarrow> ('c, 'p) message list" where
  "published_on pub (PublishCamera q img info) =
     (if q = pub then [ImageMsg img, CameraInfoMsg info] else [])"
| "published_on pub (PublishImage q img) = (if q = pub then [ImageMsg img] else [])"
| "published_on pub (PublishCloud q c) = (if q = pub then [CloudMsg c] else [])"
| "published_on pub _ = []"

text \<open>
  Modelled from the spec: the delivery of the transport layer (ROS), which is not part of
  the repository. A retained (latched) channel re-delivers the last published value to a
  consumer that attaches later, without a new publish event; a transient channel
  delivers nothing to it. \<open>late_subscriber pub es\<close> is what a consumer receives that
  attaches to \<open>pub\<close> after the events \<open>es\<close>.
\<close>

definition late_subscriber :: "Publisher \<Rightarrow> ('c, 'p) event list \<Rightarrow> ('c, 'p) message list" where
  "late_subscriber pub es =
     (if latch pub
      then (let sent = filter (\<lambda>ms. ms \<noteq> []) (map (published_on pub) es)
            in if sent = [] then [] else last sent)
      else [])"

subsection \<open>Concrete inputs\<close>

text \<open>
  A grabber whose calls all succeed and whose intrinsics records name their eye, one
  whose left query reports failure, one whose left query throws, one with no device to
  open (the calls return reporting failure), one whose \<^verbatim>\<open>openDevice\<close> throws, one whose
  \<^verbatim>\<open>openTcpPort\<close> throws, and one whose control channel refuses to close.
\<close>

definition blank_info :: "string \<Rightarrow> string CameraInfo" where
  "blank_info eye =
     \<lparr>info_header = \<lparr>seq = 0, stamp = \<lparr>sec = 0, nsec = 0\<rparr>, frame_id = []\<rparr>,
      calibration = eye\<rparr>"

definition answering :: "string \<Rightarrow> status \<times> string CameraInfo" where
  "answering eye = (Done, blank_info eye)"

definition left_refusing :: "string \<Rightarrow> status \<times> string CameraInfo" where
  "left_refusing eye = (if eye = ''Left'' then (Refused, blank_info []) else answering eye)"

definition left_throwing :: "string \<Rightarrow> status \<times> string CameraInfo" where
  "left_throwing eye = (if eye = ''Left'' then (Thrown, blank_info []) else answering eye)"

definition all_done :: "device_call \<Rightarrow> status" where
  "all_done c = Done"

definition no_device :: "device_call \<Rightarrow> status" where
  "no_device c = (case c of OpenDevice _ \<Rightarrow> Refused | OpenTcpPort \<Rightarrow> Refused | _ \<Rightarrow> Done)"

definition open_throws :: "device_call \<Rightarrow> status" where
  "open_throws c = (case c of OpenDevice _ \<Rightarrow> Thrown | _ \<Rightarrow> Done)"

definition tcp_throws :: "device_call \<Rightarrow> status" where
  "tcp_throws c = (case c of OpenTcpPort \<Rightarrow> Thrown | _ \<Rightarrow> Done)"

definition close_refused :: "device_call \<Rightarrow> status" where
  "close_refused c = (case c of CloseTcpPort \<Rightarrow> Refused | _ \<Rightarrow> Done)"

definition good_grabber :: "string EnsensoGrabber" where
  "good_grabber = \<lparr>command = all_done, getCameraInfo = answering\<rparr>"

definition left_refusing_grabber :: "string EnsensoGrabber" where
  "left_refusing_grabber = \<lparr>command = all_done, getCameraInfo = left_refusing\<rparr>"

definition left_throwing_grabber :: "string EnsensoGrabber" where
  "left_throwing_grabber = \<lparr>command = all_done, getCameraInfo = left_throwing\<rparr>"

definition unreachable_grabber :: "string EnsensoGrabber" where
  "unreachable_grabber = \<lparr>command = no_device, getCameraInfo = answering\<rparr>"

definition open_throws_grabber :: "string EnsensoGrabber" where
  "open_throws_grabber = \<lparr>command = open_throws, getCameraInfo = answering\<rparr>"

definition tcp_throws_grabber :: "string EnsensoGrabber" where
  "tcp_throws_grabber = \<lparr>command = tcp_throws, getCameraInfo = answering\<rparr>"

definition close_refused_grabber :: "string EnsensoGrabber" where
  "close_refused_grabber = \<lparr>command = close_refused, getCameraInfo = answering\<rparr>"

text \<open>An empty parameter server.\<close>

definition no_params :: params where
  "no_params name = None"

text \<open>The node that the constructor builds from the empty parameter server.\<close>

definition default_node :: HandeyeCalibration where
  "default_node =
     \<lparr>l_raw_pub = \<lparr>topic = ''left/image_raw'', queue_size = 2, latch = False\<rparr>,
      r_raw_pub = \<lparr>topic = ''right/image_raw'', queue_size = 2, latch = False\<rparr>,
      l_rectified_pub = \<lparr>topic = ''left/image_rect'', queue_size = 2, latch = False\<rparr>,
      r_rectified_pub = \<lparr>topic = ''right/image_rect'', queue_size = 2, latch = False\<rparr>,
      cloud_pub = \<lparr>topic = ''depth/points'', queue_size = 2, latch = True\<rparr>,
      camera_frame_id = ''ensenso_optical_frame''\<rparr>"

text \<open>
  A clock that advances by one second at every reading, and one that stands still.
\<close>

definition ticking :: "nat \<Rightarrow> rostime" where
  "ticking k = \<lparr>sec = of_nat k, nsec = 0\<rparr>"

definition frozen :: "nat \<Rightarrow> rostime" where
  "frozen k = \<lparr>sec = 7, nsec = 0\<rparr>"

text \<open>
  A 2 x 1 three-channel image, a 2 x 1 image with a tag the conversion does not know, and
  a frame triple of them with a cloud of two points, stamped and labelled by the grabber.
\<close>

definition colour_image :: PCLImage where
  "colour_image =
     \<lparr>pcl_header = \<lparr>pcl_seq = 0, pcl_stamp = 0, pcl_frame_id = []\<rparr>,
      pcl_height = 1, pcl_width = 2, pcl_encoding = ''CV_8UC3'',
      pcl_is_bigendian = 0, pcl_step = 6, pcl_data = [1, 2, 3, 4, 5, 6]\<rparr>"

definition odd_image :: PCLImage where
  "odd_image =
     \<lparr>pcl_header = \<lparr>pcl_seq = 0, pcl_stamp = 0, pcl_frame_id = []\<rparr>,
      pcl_height = 1, pcl_width = 2, pcl_encoding = ''CV_16UC1'',
      pcl_is_bigendian = 0, pcl_step = 4, pcl_data = [7, 8, 9, 10]\<rparr>"

text \<open>
  The two images of the conversion scenario: 100 x 80 pixels, one tagged as three-channel
  colour over 24000 bytes, one with an unknown tag over 8000 bytes.
\<close>

definition scenario_colour :: PCLImage where
  "scenario_colour =
     \<lparr>pcl_header = \<lparr>pcl_seq = 0, pcl_stamp = 0, pcl_frame_id = []\<rparr>,
      pcl_height = 80, pcl_width = 100, pcl_encoding = ''CV_8UC3'',
      pcl_is_bigendian = 0, pcl_step = 300, pcl_data = replicate 24000 0\<rparr>"

definition scenario_unknown :: PCLImage where
  "scenario_unknown =
     \<lparr>pcl_header = \<lparr>pcl_seq = 0, pcl_stamp = 0, pcl_frame_id = []\<rparr>,
      pcl_height = 80, pcl_width = 100, pcl_encoding = ''raw-bayer'',
      pcl_is_bigendian = 0, pcl_step = 100, pcl_data = replicate 8000 0\<rparr>"

definition sample_cloud :: "nat PointCloud" where
  "sample_cloud =
     \<lparr>cloud_header = \<lparr>pcl_seq = 3, pcl_stamp = 1000, pcl_frame_id = ''grabber''\<rparr>,
      points = [11, 12], cloud_width = 2, cloud_height = 1, is_dense = True\<rparr>"

definition sample_triple :: "nat FrameTriple" where
  "sample_triple =
     \<lparr>cloud = sample_cloud, rawimages = (colour_image, odd_image),
      rectifiedimages = (odd_image, colour_image)\<rparr>"

section \<open>Properties\<close>

subsection \<open>Facts about the conversion, the callback and the constructor\<close>

lemma toImageMsg_encoding:
  "encoding (toImageMsg im now) = (if pcl_encoding im = ''CV_8UC3'' then ''bgr8'' else ''mono8'')"
  by (simp add: toImageMsg_def CvImage_toImageMsg_def Let_def)

lemma toImageMsg_height: "height (toImageMsg im now) = pcl_height im"
  by (simp add: toImageMsg_def CvImage_toImageMsg_def Let_def split: prod.splits)

lemma toImageMsg_width: "width (toImageMsg im now) = pcl_width im"
  by (simp add: toImageMsg_def CvImage_toImageMsg_def Let_def split: prod.splits)

lemma toImageMsg_header:
  "header (toImageMsg im now) = \<lparr>seq = 0, stamp = now, frame_id = ''world''\<rparr>"
  by (simp add: toImageMsg_def CvImage_toImageMsg_def Let_def split: prod.splits)

lemma toImageMsg_step:
  "step (toImageMsg im now) = pcl_width im * (if pcl_encoding im = ''CV_8UC3'' then 3 else 1)"
  by (simp add: toImageMsg_def CvImage_toImageMsg_def Let_def)

lemma toImageMsg_data:
  "data (toImageMsg im now)
     = take (unat (pcl_width im * (if pcl_encoding im = ''CV_8UC3'' then 3 else 1) * pcl_height im))
         (pcl_data im)"
  by (simp add: toImageMsg_def CvImage_toImageMsg_def Let_def)

text \<open>
  Overwriting the stamp of a converted image gives the image converted at that time:
  nothing but the header's stamp depends on the clock.
\<close>

lemma toImageMsg_restamped:
  "(toImageMsg im t0)\<lparr>header := (header (toImageMsg im t0))\<lparr>stamp := t1\<rparr>\<rparr> = toImageMsg im t1"
  by (simp add: toImageMsg_def CvImage_toImageMsg_def Let_def split: prod.splits)

lemma raw_args_image:
  "fst (raw_args ord now k im) =
     toImageMsg im (now (case ord of LeftToRight \<Rightarrow> k | RightToLeft \<Rightarrow> Suc k))"
  by (simp add: raw_args_def split: arg_order.splits)

lemma raw_args_stamp:
  "snd (raw_args ord now k im) = now (case ord of LeftToRight \<Rightarrow> Suc k | RightToLeft \<Rightarrow> k)"
  by (simp add: raw_args_def split: arg_order.splits)

text \<open>
  When neither intrinsics query throws, the callback runs its whole body: these are
  its result, its events and the frame triple it leaves.
\<close>

lemma grabberCallback_returns:
  assumes "fst (getCameraInfo g ''Left'') \<noteq> Thrown" and "fst (getCameraInfo g ''Right'') \<noteq> Thrown"
  shows "grabberCallback this g ord now t =
    (Inr (),
     [Query ''Left'', Query ''Right'',
      publish_camera (l_raw_pub this) (fst (raw_args ord now 0 (fst (rawimages t))))
        ((snd (getCameraInfo g ''Left''))\<lparr>info_header :=
            (info_header (snd (getCameraInfo g ''Left'')))\<lparr>frame_id := camera_frame_id this\<rparr>\<rparr>)
        (snd (raw_args ord now 0 (fst (rawimages t)))),
      publish_camera (r_raw_pub this) (fst (raw_args ord now 2 (snd (rawimages t))))
        ((snd (getCameraInfo g ''Right''))\<lparr>info_header :=
            (info_header (snd (getCameraInfo g ''Right'')))\<lparr>frame_id := camera_frame_id this\<rparr>\<rparr>)
        (snd (raw_args ord now 2 (snd (rawimages t)))),
      PublishImage (l_rectified_pub this) (toImageMsg (fst (rectifiedimages t)) (now 4)),
      PublishImage (r_rectified_pub this) (toImageMsg (snd (rectifiedimages t)) (now 5)),
      PublishCloud (cloud_pub this)
        ((cloud t)\<lparr>cloud_header := (cloud_header (cloud t))\<lparr>pcl_frame_id := camera_frame_id this\<rparr>\<rparr>)],
     t\<lparr>cloud := (cloud t)\<lparr>cloud_header :=
          (cloud_header (cloud t))\<lparr>pcl_frame_id := camera_frame_id this\<rparr>\<rparr>\<rparr>)"
  using assms by (simp add: grabberCallback_def Let_def)

text \<open>
  The object the constructor builds, when it builds one, and the one it builds from an
  empty parameter server.
\<close>

lemma ctor_node:
  "fst (HandeyeCalibration_ctor ps g) = Inr this \<Longrightarrow>
   this = \<lparr>l_raw_pub = \<lparr>topic = ''left/image_raw'', queue_size = 2, latch = False\<rparr>,
           r_raw_pub = \<lparr>topic = ''right/image_raw'', queue_size = 2, latch = False\<rparr>,
           l_rectified_pub = \<lparr>topic = ''left/image_rect'', queue_size = 2, latch = False\<rparr>,
           r_rectified_pub = \<lparr>topic = ''right/image_rect'', queue_size = 2, latch = False\<rparr>,
           cloud_pub = \<lparr>topic = ''depth/points'', queue_size = 2, latch = True\<rparr>,
           camera_frame_id = param_string ps ''camera_frame_id'' ''ensenso_optical_frame''\<rparr>"
  by (auto simp add: HandeyeCalibration_ctor_def Let_def split: option.splits)

lemma ctor_default_node:
  "fst (HandeyeCalibration_ctor no_params good_grabber) = Inr default_node"
  by (simp add: HandeyeCalibration_ctor_def Let_def good_grabber_def all_done_def
      no_params_def param_string_def default_node_def)

lemma run_calls_trace: "map Device (device_calls (snd (run_calls drv cs))) = snd (run_calls drv cs)"
  by (induction cs) auto

lemma run_calls_no_warn: "filter is_warn (snd (run_calls drv cs)) = []"
  by (induction cs) auto

text \<open>
  A latched publisher hands a late subscriber its last publication, whatever came
  before and as long as nothing is published on it afterwards.
\<close>

lemma no_publication_on: "published_by e = [] \<Longrightarrow> published_on pub e = []"
  by (cases e) simp_all

lemma late_subscriber_latched:
  assumes "latch pub" and "published_on pub e \<noteq> []"
      and "list_all (\<lambda>e. published_on pub e = []) later"
  shows "late_subscriber pub (earlier @ e # later) = published_on pub e"
proof -
  from assms(3) have "filter (\<lambda>ms. ms \<noteq> []) (map (published_on pub) later) = []"
    by (induction later) auto
  with assms(1,2) show ?thesis
    by (simp add: late_subscriber_def Let_def)
qed

subsection \<open>Coordinate-frame labels\<close>

text \<open>
  Claim C1 asks that every artifact of a frame triple carries the configured
  \<^verbatim>\<open>camera_frame_id\<close>. The intrinsics records and the cloud do; the four images carry the
  label \<^verbatim>\<open>world\<close> that \<^verbatim>\<open>toImageMsg\<close> writes into every header. Here the node is the one
  built from an empty parameter server, so the configured label is
  \<^verbatim>\<open>ensenso_optical_frame\<close>; the labels are listed in the order of publication (left raw
  image, left intrinsics, right raw image, right intrinsics, left rectified, right
  rectified, cloud).
\<close>

theorem hardcoded_world_label:
  "fst (HandeyeCalibration_ctor no_params good_grabber) = Inr default_node
   \<and> concat (map frame_labels
        (fst (snd (grabberCallback default_node good_grabber LeftToRight ticking sample_triple))))
     = [''world'', ''ensenso_optical_frame'', ''world'', ''ensenso_optical_frame'',
        ''world'', ''world'', ''ensenso_optical_frame'']"
proof -
  have q: "fst (getCameraInfo good_grabber ''Left'') \<noteq> Thrown"
          "fst (getCameraInfo good_grabber ''Right'') \<noteq> Thrown"
    by (simp_all add: good_grabber_def answering_def)
  note ctor_default_node
  moreover have "concat (map frame_labels
        (fst (snd (grabberCallback default_node good_grabber LeftToRight ticking sample_triple))))
     = [''world'', ''ensenso_optical_frame'', ''world'', ''ensenso_optical_frame'',
        ''world'', ''world'', ''ensenso_optical_frame'']"
    by (simp add: grabberCallback_returns [OF q] publish_camera_def raw_args_image
        toImageMsg_header default_node_def)
  ultimately show ?thesis by simp
qed

subsection \<open>The conversion adapter\<close>

text \<open>
  Claim C2. The conversion is a closed, total mapping on encodings that keeps the image
  dimensions: the tag \<^verbatim>\<open>CV_8UC3\<close> gives \<^verbatim>\<open>bgr8\<close>, every other tag, known or not, gives
  \<^verbatim>\<open>mono8\<close>, and the message has the height and the width of the input (the round trip
  of the two unsigned 32-bit fields through the signed \<^verbatim>\<open>int\<close>s of \<^verbatim>\<open>cv::Mat\<close> is the
  identity). \<open>toImageMsg\<close> has no error result: no path of the conversion throws or
  returns without a message. When the buffer holds the bytes the conversion copies, the
  message carries exactly \<^verbatim>\<open>step * height\<close> bytes, the first bytes of the buffer.
\<close>

theorem conversion_total_mapping:
  "(pcl_encoding im = ''CV_8UC3'' \<longrightarrow> encoding (toImageMsg im now) = ''bgr8'')
   \<and> (pcl_encoding im \<noteq> ''CV_8UC3'' \<longrightarrow> encoding (toImageMsg im now) = ''mono8'')
   \<and> height (toImageMsg im now) = pcl_height im
   \<and> width (toImageMsg im now) = pcl_width im
   \<and> (buffer_covers im \<longrightarrow>
        length (data (toImageMsg im now))
          = unat (step (toImageMsg im now) * height (toImageMsg im now))
        \<and> data (toImageMsg im now) = take (length (data (toImageMsg im now))) (pcl_data im))"
  by (simp add: toImageMsg_encoding toImageMsg_height toImageMsg_width toImageMsg_step
      toImageMsg_data buffer_covers_def)

text \<open>
  The conversion scenario: the 100 x 80 colour buffer becomes a 100 x 80 \<^verbatim>\<open>bgr8\<close>
  message of 24000 bytes, the 100 x 80 buffer with an unknown tag a 100 x 80 \<^verbatim>\<open>mono8\<close>
  message.
\<close>

theorem conversion_total_mapping_witness:
  "pcl_encoding scenario_colour = ''CV_8UC3''
   \<and> encoding (toImageMsg scenario_colour (ticking 0)) = ''bgr8''
   \<and> height (toImageMsg scenario_colour (ticking 0)) = 80
   \<and> width (toImageMsg scenario_colour (ticking 0)) = 100
   \<and> buffer_covers scenario_colour
   \<and> length (data (toImageMsg scenario_colour (ticking 0)))
       = unat (step (toImageMsg scenario_colour (ticking 0)) * 80)
   \<and> pcl_encoding scenario_unknown \<noteq> ''CV_8UC3''
   \<and> encoding (toImageMsg scenario_unknown (ticking 0)) = ''mono8''
   \<and> height (toImageMsg scenario_unknown (ticking 0)) = 80
   \<and> width (toImageMsg scenario_unknown (ticking 0)) = 100"
proof -
  have c: "pcl_encoding scenario_colour = ''CV_8UC3''"
    and u: "pcl_encoding scenario_unknown \<noteq> ''CV_8UC3''"
    by (simp_all add: scenario_colour_def scenario_unknown_def)
  have hc: "pcl_height scenario_colour = 80" "pcl_width scenario_colour = 100"
    and hu: "pcl_height scenario_unknown = 80" "pcl_width scenario_unknown = 100"
    by (simp_all add: scenario_colour_def scenario_unknown_def)
  have b: "buffer_covers scenario_colour"
    by (simp add: buffer_covers_def scenario_colour_def)
  from conversion_total_mapping [of scenario_colour "ticking 0"]
       conversion_total_mapping [of scenario_unknown "ticking 0"] c u hc hu b
  show ?thesis by simp
qed

subsection \<open>A failing intrinsics query\<close>

text \<open>
  Claim C3 says that when the intrinsics query fails for one eye, that eye's raw image
  is dropped, the other artifacts are delivered, and no error reaches the caller. The
  callback does not look at the outcome of the query. When the left query returns
  reporting failure, the left raw image is published all the same; when the left query
  throws, the exception leaves the callback and nothing is published.
\<close>

theorem intrinsics_failure_counterexample:
  "fst (getCameraInfo left_refusing_grabber ''Left'') = Refused
   \<and> l_raw_pub default_node \<in> set (concat (map published_by
        (fst (snd (grabberCallback default_node left_refusing_grabber LeftToRight ticking
                     sample_triple)))))
   \<and> fst (getCameraInfo left_throwing_grabber ''Left'') = Thrown
   \<and> fst (grabberCallback default_node left_throwing_grabber LeftToRight ticking sample_triple)
       = Inl (DeviceException (GetCameraInfo ''Left''))
   \<and> publications (fst (snd (grabberCallback default_node left_throwing_grabber LeftToRight
        ticking sample_triple))) = []"
proof -
  have q: "fst (getCameraInfo left_refusing_grabber ''Left'') \<noteq> Thrown"
          "fst (getCameraInfo left_refusing_grabber ''Right'') \<noteq> Thrown"
    by (simp_all add: left_refusing_grabber_def left_refusing_def answering_def)
  have "l_raw_pub default_node \<in> set (concat (map published_by
        (fst (snd (grabberCallback default_node left_refusing_grabber LeftToRight ticking
                     sample_triple)))))"
    by (simp add: grabberCallback_returns [OF q] publish_camera_def)
  moreover have "fst (getCameraInfo left_throwing_grabber ''Left'') = Thrown"
    by (simp add: left_throwing_grabber_def left_throwing_def)
  moreover from this
  have "fst (grabberCallback default_node left_throwing_grabber LeftToRight ticking sample_triple)
       = Inl (DeviceException (GetCameraInfo ''Left''))"
    and "publications (fst (snd (grabberCallback default_node left_throwing_grabber LeftToRight
        ticking sample_triple))) = []"
    by (simp_all add: grabberCallback_def publications_def)
  moreover have "fst (getCameraInfo left_refusing_grabber ''Left'') = Refused"
    by (simp add: left_refusing_grabber_def left_refusing_def)
  ultimately show ?thesis by simp
qed

text \<open>
  Claim C3, amended. If neither intrinsics query throws, also when one or both return
  reporting failure, the callback returns normally and its publications are exactly
  these five, in this order. Each raw image is the conversion of its own buffer and goes
  out with the intrinsics record as the query for its eye left it, except that the
  record's frame label is set to the configured one and the stamps of image and record
  to the clock reading passed to that publication; then the two rectified images, each
  the conversion of its own buffer, and the relabelled cloud.
\<close>

theorem refused_query_is_ignored:
  assumes "fst (getCameraInfo g ''Left'') \<noteq> Thrown"
      and "fst (getCameraInfo g ''Right'') \<noteq> Thrown"
  shows "fst (grabberCallback this g ord now t) = Inr ()
     \<and> publications (fst (snd (grabberCallback this g ord now t)))
         = [PublishCamera (l_raw_pub this)
              (toImageMsg (fst (rawimages t))
                 (now (case ord of LeftToRight \<Rightarrow> 1 | RightToLeft \<Rightarrow> 0)))
              \<lparr>info_header =
                 \<lparr>seq = seq (info_header (snd (getCameraInfo g ''Left''))),
                  stamp = now (case ord of LeftToRight \<Rightarrow> 1 | RightToLeft \<Rightarrow> 0),
                  frame_id = camera_frame_id this\<rparr>,
               calibration = calibration (snd (getCameraInfo g ''Left''))\<rparr>,
            PublishCamera (r_raw_pub this)
              (toImageMsg (snd (rawimages t))
                 (now (case ord of LeftToRight \<Rightarrow> 3 | RightToLeft \<Rightarrow> 2)))
              \<lparr>info_header =
                 \<lparr>seq = seq (info_header (snd (getCameraInfo g ''Right''))),
                  stamp = now (case ord of LeftToRight \<Rightarrow> 3 | RightToLeft \<Rightarrow> 2),
                  frame_id = camera_frame_id this\<rparr>,
               calibration = calibration (snd (getCameraInfo g ''Right''))\<rparr>,
            PublishImage (l_rectified_pub this) (toImageMsg (fst (rectifiedimages t)) (now 4)),
            PublishImage (r_rectified_pub this) (toImageMsg (snd (rectifiedimages t)) (now 5)),
            PublishCloud (cloud_pub this)
              ((cloud t)\<lparr>cloud_header :=
                 (cloud_header (cloud t))\<lparr>pcl_frame_id := camera_frame_id this\<rparr>\<rparr>)]
     \<and> concat (map published_by (fst (snd (grabberCallback this g ord now t))))
         = [l_raw_pub this, r_raw_pub this, l_rectified_pub this, r_rectified_pub this,
            cloud_pub this]
     \<and> concat (map calibrations_of (fst (snd (grabberCallback this g ord now t))))
         = [calibration (snd (getCameraInfo g ''Left'')),
            calibration (snd (getCameraInfo g ''Right''))]"
proof -
  note run = grabberCallback_returns [OF assms, of this ord now t]
  have res: "fst (grabberCallback this g ord now t) = Inr ()"
    by (simp add: run)
  have img: "\<And>im k. (toImageMsg im (now (case ord of LeftToRight \<Rightarrow> k | RightToLeft \<Rightarrow> Suc k)))
        \<lparr>header := (header (toImageMsg im
            (now (case ord of LeftToRight \<Rightarrow> k | RightToLeft \<Rightarrow> Suc k))))
          \<lparr>stamp := now (case ord of LeftToRight \<Rightarrow> Suc k | RightToLeft \<Rightarrow> k)\<rparr>\<rparr>
      = toImageMsg im (now (case ord of LeftToRight \<Rightarrow> Suc k | RightToLeft \<Rightarrow> k))"
    by (rule toImageMsg_restamped)
  have info: "\<And>i f s. i\<lparr>info_header := (info_header i)\<lparr>frame_id := f\<rparr>\<rparr>
        \<lparr>info_header := (info_header (i\<lparr>info_header := (info_header i)\<lparr>frame_id := f\<rparr>\<rparr>))
            \<lparr>stamp := s\<rparr>\<rparr>
      = \<lparr>info_header = \<lparr>seq = seq (info_header i), stamp = s, frame_id = f\<rparr>,
         calibration = calibration i\<rparr>"
    by simp
  have pubs: "publications (fst (snd (grabberCallback this g ord now t)))
         = [PublishCamera (l_raw_pub this)
              (toImageMsg (fst (rawimages t))
                 (now (case ord of LeftToRight \<Rightarrow> 1 | RightToLeft \<Rightarrow> 0)))
              \<lparr>info_header =
                 \<lparr>seq = seq (info_header (snd (getCameraInfo g ''Left''))),
                  stamp = now (case ord of LeftToRight \<Rightarrow> 1 | RightToLeft \<Rightarrow> 0),
                  frame_id = camera_frame_id this\<rparr>,
               calibration = calibration (snd (getCameraInfo g ''Left''))\<rparr>,
            PublishCamera (r_raw_pub this)
              (toImageMsg (snd (rawimages t))
                 (now (case ord of LeftToRight \<Rightarrow> 3 | RightToLeft \<Rightarrow> 2)))
              \<lparr>info_header =
                 \<lparr>seq = seq (info_header (snd (getCameraInfo g ''Right''))),
                  stamp = now (case ord of LeftToRight \<Rightarrow> 3 | RightToLeft \<Rightarrow> 2),
                  frame_id = camera_frame_id this\<rparr>,
               calibration = calibration (snd (getCameraInfo g ''Right''))\<rparr>,
            PublishImage (l_rectified_pub this) (toImageMsg (fst (rectifiedimages t)) (now 4)),
            PublishImage (r_rectified_pub this) (toImageMsg (snd (rectifiedimages t)) (now 5)),
            PublishCloud (cloud_pub this)
              ((cloud t)\<lparr>cloud_header :=
                 (cloud_header (cloud t))\<lparr>pcl_frame_id := camera_frame_id this\<rparr>\<rparr>)]"
    using img [where k = 0] img [where k = 2]
    by (cases ord)
       (simp_all add: grabberCallback_returns [OF assms] publications_def publish_camera_def
          raw_args_image raw_args_stamp eval_nat_numeral)
  have ord: "concat (map published_by (fst (snd (grabberCallback this g ord now t))))
         = [l_raw_pub this, r_raw_pub this, l_rectified_pub this, r_rectified_pub this,
            cloud_pub this]"
    by (simp add: run publish_camera_def)
  have cal: "concat (map calibrations_of (fst (snd (grabberCallback this g ord now t))))
         = [calibration (snd (getCameraInfo g ''Left'')),
            calibration (snd (getCameraInfo g ''Right''))]"
    by (simp add: run publish_camera_def)
  from res pubs ord cal show ?thesis by (intro conjI)
qed

text \<open>
  With the left query reporting failure and leaving an empty record, the first
  publication is the left raw image, converted from the left raw buffer, with that empty
  record, relabelled and stamped.
\<close>

theorem refused_query_is_ignored_witness:
  "fst (getCameraInfo left_refusing_grabber ''Left'') = Refused
   \<and> fst (getCameraInfo left_refusing_grabber ''Right'') = Done
   \<and> fst (grabberCallback default_node left_refusing_grabber LeftToRight ticking sample_triple)
       = Inr ()
   \<and> hd (publications
        (fst (snd (grabberCallback default_node left_refusing_grabber LeftToRight ticking
                     sample_triple))))
       = PublishCamera (l_raw_pub default_node) (toImageMsg colour_image (ticking 1))
           \<lparr>info_header = \<lparr>seq = 0, stamp = ticking 1, frame_id = ''ensenso_optical_frame''\<rparr>,
            calibration = []\<rparr>
   \<and> concat (map published_by
        (fst (snd (grabberCallback default_node left_refusing_grabber LeftToRight ticking
                     sample_triple))))
       = [l_raw_pub default_node, r_raw_pub default_node, l_rectified_pub default_node,
          r_rectified_pub default_node, cloud_pub default_node]
   \<and> concat (map calibrations_of
        (fst (snd (grabberCallback default_node left_refusing_grabber LeftToRight ticking
                     sample_triple))))
       = [[], ''Right'']"
proof -
  have l: "fst (getCameraInfo left_refusing_grabber ''Left'') = Refused"
    and r: "fst (getCameraInfo left_refusing_grabber ''Right'') = Done"
    and c: "calibration (snd (getCameraInfo left_refusing_grabber ''Left'')) = []"
           "calibration (snd (getCameraInfo left_refusing_grabber ''Right'')) = ''Right''"
    and s: "seq (info_header (snd (getCameraInfo left_refusing_grabber ''Left''))) = 0"
    by (simp_all add: left_refusing_grabber_def left_refusing_def answering_def blank_info_def)
  have i: "fst (rawimages sample_triple) = colour_image"
    and f: "camera_frame_id default_node = ''ensenso_optical_frame''"
    by (simp_all add: sample_triple_def default_node_def)
  have "fst (getCameraInfo left_refusing_grabber ''Left'') \<noteq> Thrown"
    and "fst (getCameraInfo left_refusing_grabber ''Right'') \<noteq> Thrown"
    using l r by simp_all
  from refused_query_is_ignored [OF this, of default_node LeftToRight ticking sample_triple]
    l r c s i f
  show ?thesis by simp
qed

subsection \<open>Teardown\<close>

text \<open>
  Claim C4 says that disposal stops the acquisition, then closes the control channel,
  then releases the device. The destructor does not call \<^verbatim>\<open>stop\<close>.
\<close>

theorem teardown_counterexample:
  "device_calls (snd (HandeyeCalibration_dtor good_grabber)) \<noteq> [Stop, CloseTcpPort, CloseDevice]"
  by (simp add: HandeyeCalibration_dtor_def good_grabber_def all_done_def)

text \<open>
  Claim C4, amended. The destructor never calls \<^verbatim>\<open>stop\<close>. It closes the control
  channel and then closes the device, exactly these two calls in this order, whenever
  the first call returns, also when it returns reporting failure.
\<close>

theorem teardown_two_calls:
  "Stop \<notin> set (device_calls (snd (HandeyeCalibration_dtor g)))
   \<and> (command g CloseTcpPort \<noteq> Thrown \<longrightarrow>
        device_calls (snd (HandeyeCalibration_dtor g)) = [CloseTcpPort, CloseDevice])"
  by (simp add: HandeyeCalibration_dtor_def)

text \<open>
  With a control channel that refuses to close, the device is closed all the same.
\<close>

theorem teardown_two_calls_witness:
  "command close_refused_grabber CloseTcpPort = Refused
   \<and> Stop \<notin> set (device_calls (snd (HandeyeCalibration_dtor close_refused_grabber)))
   \<and> device_calls (snd (HandeyeCalibration_dtor close_refused_grabber)) = [CloseTcpPort, CloseDevice]"
proof -
  have r: "command close_refused_grabber CloseTcpPort = Refused"
    by (simp add: close_refused_grabber_def close_refused_def)
  then have "command close_refused_grabber CloseTcpPort \<noteq> Thrown" by simp
  with teardown_two_calls [of close_refused_grabber] r show ?thesis by simp
qed

subsection \<open>Time stamps\<close>

text \<open>
  Claim C5 says that all artifacts of one frame triple carry the same time stamp. Every
  image is stamped from its own reading of the clock; with a clock that advances between
  the readings the stamps of the images and intrinsics records differ.
\<close>

theorem capture_instant_counterexample:
  "\<not> all_equal (concat (map ros_stamps
       (fst (snd (grabberCallback default_node good_grabber LeftToRight ticking sample_triple)))))"
proof -
  have q: "fst (getCameraInfo good_grabber ''Left'') \<noteq> Thrown"
          "fst (getCameraInfo good_grabber ''Right'') \<noteq> Thrown"
    by (simp_all add: good_grabber_def answering_def)
  show ?thesis
    by (simp add: grabberCallback_returns [OF q] publish_camera_def raw_args_stamp
        toImageMsg_header ticking_def)
qed

text \<open>
  Claim C5, amended. When the callback runs its whole body, each raw image and the
  intrinsics record published with it carry one and the same stamp, the clock reading
  passed to that publication; the left pair, the right pair and the two rectified images
  are stamped from four separate readings of the clock (which readings, depends on the
  order in which the compiler evaluates the arguments of the raw publications); the
  cloud is published with the stamp it arrived with.
\<close>

theorem stamp_per_publication:
  assumes "fst (getCameraInfo g ''Left'') \<noteq> Thrown"
      and "fst (getCameraInfo g ''Right'') \<noteq> Thrown"
  shows "concat (map ros_stamps (fst (snd (grabberCallback this g ord now t))))
         = [now (case ord of LeftToRight \<Rightarrow> 1 | RightToLeft \<Rightarrow> 0),
            now (case ord of LeftToRight \<Rightarrow> 1 | RightToLeft \<Rightarrow> 0),
            now (case ord of LeftToRight \<Rightarrow> 3 | RightToLeft \<Rightarrow> 2),
            now (case ord of LeftToRight \<Rightarrow> 3 | RightToLeft \<Rightarrow> 2),
            now 4, now 5]
     \<and> map (\<lambda>c. pcl_stamp (cloud_header c))
           (concat (map clouds_of (fst (snd (grabberCallback this g ord now t)))))
         = [pcl_stamp (cloud_header (cloud t))]"
  by (simp add: grabberCallback_returns [OF assms] publish_camera_def raw_args_stamp
      toImageMsg_header eval_nat_numeral split: arg_order.splits)

text \<open>
  With the clock that advances at every reading and arguments evaluated left to right:
  readings 1, 3, 4 and 5 stamp the four publications, and the cloud keeps its stamp.
\<close>

theorem stamp_per_publication_witness:
  "fst (getCameraInfo good_grabber ''Left'') = Done
   \<and> fst (getCameraInfo good_grabber ''Right'') = Done
   \<and> concat (map ros_stamps
        (fst (snd (grabberCallback default_node good_grabber LeftToRight ticking sample_triple))))
       = [ticking 1, ticking 1, ticking 3, ticking 3, ticking 4, ticking 5]
   \<and> map (\<lambda>c. pcl_stamp (cloud_header c))
        (concat (map clouds_of
          (fst (snd (grabberCallback default_node good_grabber LeftToRight ticking sample_triple)))))
       = [1000]"
proof -
  have l: "fst (getCameraInfo good_grabber ''Left'') = Done"
    and r: "fst (getCameraInfo good_grabber ''Right'') = Done"
    by (simp_all add: good_grabber_def answering_def)
  have s: "pcl_stamp (cloud_header (cloud sample_triple)) = 1000"
    by (simp add: sample_triple_def sample_cloud_def)
  have "fst (getCameraInfo good_grabber ''Left'') \<noteq> Thrown"
    and "fst (getCameraInfo good_grabber ''Right'') \<noteq> Thrown"
    using l r by simp_all
  from stamp_per_publication [OF this, of default_node LeftToRight ticking sample_triple] l r s
  show ?thesis by simp
qed

subsection \<open>An unreachable device\<close>

text \<open>
  Claim C6 says that with an unreachable device the initialization fails hard and no
  output channel is ever advertised. The constructor advertises before it opens the
  device and discards what \<^verbatim>\<open>openDevice\<close> and \<^verbatim>\<open>openTcpPort\<close> return: when both report
  failure, the construction completes with the five channels advertised; when
  \<^verbatim>\<open>openDevice\<close> throws, the five channels have been advertised already.
\<close>

theorem unreachable_device_counterexample:
  "command unreachable_grabber (OpenDevice ''150533'') = Refused
   \<and> command unreachable_grabber OpenTcpPort = Refused
   \<and> \<not> isl (fst (HandeyeCalibration_ctor no_params unreachable_grabber))
   \<and> length (filter is_advertise (snd (HandeyeCalibration_ctor no_params unreachable_grabber))) = 5
   \<and> command open_throws_grabber (OpenDevice ''150533'') = Thrown
   \<and> length (filter is_advertise (snd (HandeyeCalibration_ctor no_params open_throws_grabber))) = 5"
  by (simp add: HandeyeCalibration_ctor_def Let_def unreachable_grabber_def no_device_def
      open_throws_grabber_def open_throws_def no_params_def param_string_def param_bool_def
      hasParam_def not_found_def)

text \<open>
  Claim C6, amended. The events of the constructor are the warnings, then the five
  advertisements, then the calls on the grabber: the channels are advertised before the
  device is opened, whatever the grabber does. If \<^verbatim>\<open>openDevice\<close> or \<^verbatim>\<open>openTcpPort\<close>
  throws, the constructor ends with that exception and makes no further call on the
  grabber. If no call throws, also when calls return reporting failure, the construction
  completes and runs through \<^verbatim>\<open>start\<close>.
\<close>

theorem channels_advertised_before_open:
  "snd (HandeyeCalibration_ctor ps g)
     = filter is_warn (snd (HandeyeCalibration_ctor ps g))
       @ [Advertise \<lparr>topic = ''left/image_raw'', queue_size = 2, latch = False\<rparr>,
          Advertise \<lparr>topic = ''right/image_raw'', queue_size = 2, latch = False\<rparr>,
          Advertise \<lparr>topic = ''left/image_rect'', queue_size = 2, latch = False\<rparr>,
          Advertise \<lparr>topic = ''right/image_rect'', queue_size = 2, latch = False\<rparr>,
          Advertise \<lparr>topic = ''depth/points'', queue_size = 2, latch = True\<rparr>]
       @ map Device (device_calls (snd (HandeyeCalibration_ctor ps g)))
   \<and> (command g (OpenDevice (param_string ps ''serial_no'' ''150533'')) = Thrown \<longrightarrow>
        fst (HandeyeCalibration_ctor ps g)
          = Inl (DeviceException (OpenDevice (param_string ps ''serial_no'' ''150533'')))
        \<and> device_calls (snd (HandeyeCalibration_ctor ps g))
          = [OpenDevice (param_string ps ''serial_no'' ''150533'')])
   \<and> (command g (OpenDevice (param_string ps ''serial_no'' ''150533'')) \<noteq> Thrown
        \<and> command g OpenTcpPort = Thrown \<longrightarrow>
        fst (HandeyeCalibration_ctor ps g) = Inl (DeviceException OpenTcpPort)
        \<and> device_calls (snd (HandeyeCalibration_ctor ps g))
          = [OpenDevice (param_string ps ''serial_no'' ''150533''), OpenTcpPort])
   \<and> ((\<forall>c. command g c \<noteq> Thrown) \<longrightarrow>
        \<not> isl (fst (HandeyeCalibration_ctor ps g))
        \<and> device_calls (snd (HandeyeCalibration_ctor ps g))
          = [OpenDevice (param_string ps ''serial_no'' ''150533''), OpenTcpPort,
             ConfigureCapture, EnableProjector (param_bool ps ''projector'' False),
             EnableFrontLight (param_bool ps ''front_light'' False), RegisterCallback, Start])"
proof (intro conjI impI)
  show "snd (HandeyeCalibration_ctor ps g)
     = filter is_warn (snd (HandeyeCalibration_ctor ps g))
       @ [Advertise \<lparr>topic = ''left/image_raw'', queue_size = 2, latch = False\<rparr>,
          Advertise \<lparr>topic = ''right/image_raw'', queue_size = 2, latch = False\<rparr>,
          Advertise \<lparr>topic = ''left/image_rect'', queue_size = 2, latch = False\<rparr>,
          Advertise \<lparr>topic = ''right/image_rect'', queue_size = 2, latch = False\<rparr>,
          Advertise \<lparr>topic = ''depth/points'', queue_size = 2, latch = True\<rparr>]
       @ map Device (device_calls (snd (HandeyeCalibration_ctor ps g)))"
    unfolding HandeyeCalibration_ctor_def Let_def snd_conv
    by (simp only: filter_append run_calls_no_warn)
       (simp add: not_found_def run_calls_trace del: run_calls.simps)
next
  assume "command g (OpenDevice (param_string ps ''serial_no'' ''150533'')) = Thrown"
  then show "fst (HandeyeCalibration_ctor ps g)
          = Inl (DeviceException (OpenDevice (param_string ps ''serial_no'' ''150533'')))"
    and "device_calls (snd (HandeyeCalibration_ctor ps g))
          = [OpenDevice (param_string ps ''serial_no'' ''150533'')]"
    by (simp_all add: HandeyeCalibration_ctor_def Let_def not_found_def)
next
  assume "command g (OpenDevice (param_string ps ''serial_no'' ''150533'')) \<noteq> Thrown
        \<and> command g OpenTcpPort = Thrown"
  then show "fst (HandeyeCalibration_ctor ps g) = Inl (DeviceException OpenTcpPort)"
    and "device_calls (snd (HandeyeCalibration_ctor ps g))
          = [OpenDevice (param_string ps ''serial_no'' ''150533''), OpenTcpPort]"
    by (simp_all add: HandeyeCalibration_ctor_def Let_def not_found_def)
next
  assume "\<forall>c. command g c \<noteq> Thrown"
  then show "\<not> isl (fst (HandeyeCalibration_ctor ps g))"
    and "device_calls (snd (HandeyeCalibration_ctor ps g))
          = [OpenDevice (param_string ps ''serial_no'' ''150533''), OpenTcpPort,
             ConfigureCapture, EnableProjector (param_bool ps ''projector'' False),
             EnableFrontLight (param_bool ps ''front_light'' False), RegisterCallback, Start]"
    by (simp_all add: HandeyeCalibration_ctor_def Let_def not_found_def)
qed

text \<open>
  The three cases, from an empty parameter server: \<^verbatim>\<open>openDevice\<close> throws,
  \<^verbatim>\<open>openTcpPort\<close> throws, and both return reporting failure.
\<close>

theorem channels_advertised_before_open_witness:
  "command open_throws_grabber (OpenDevice ''150533'') = Thrown
   \<and> fst (HandeyeCalibration_ctor no_params open_throws_grabber)
       = Inl (DeviceException (OpenDevice ''150533''))
   \<and> device_calls (snd (HandeyeCalibration_ctor no_params open_throws_grabber))
       = [OpenDevice ''150533'']
   \<and> command tcp_throws_grabber (OpenDevice ''150533'') = Done
   \<and> command tcp_throws_grabber OpenTcpPort = Thrown
   \<and> fst (HandeyeCalibration_ctor no_params tcp_throws_grabber)
       = Inl (DeviceException OpenTcpPort)
   \<and> device_calls (snd (HandeyeCalibration_ctor no_params tcp_throws_grabber))
       = [OpenDevice ''150533'', OpenTcpPort]
   \<and> command unreachable_grabber (OpenDevice ''150533'') = Refused
   \<and> \<not> isl (fst (HandeyeCalibration_ctor no_params unreachable_grabber))
   \<and> device_calls (snd (HandeyeCalibration_ctor no_params unreachable_grabber))
       = [OpenDevice ''150533'', OpenTcpPort, ConfigureCapture, EnableProjector False,
          EnableFrontLight False, RegisterCallback, Start]"
proof -
  have p: "param_string no_params ''serial_no'' ''150533'' = ''150533''"
          "param_bool no_params ''projector'' False = False"
          "param_bool no_params ''front_light'' False = False"
    by (simp_all add: param_string_def param_bool_def no_params_def)
  have o: "command open_throws_grabber (OpenDevice ''150533'') = Thrown"
    by (simp add: open_throws_grabber_def open_throws_def)
  have t: "command tcp_throws_grabber (OpenDevice ''150533'') = Done"
          "command tcp_throws_grabber OpenTcpPort = Thrown"
    by (simp_all add: tcp_throws_grabber_def tcp_throws_def)
  have u: "command unreachable_grabber (OpenDevice ''150533'') = Refused"
    by (simp add: unreachable_grabber_def no_device_def)
  have a: "\<forall>c. command unreachable_grabber c \<noteq> Thrown"
    by (simp add: unreachable_grabber_def no_device_def split: device_call.splits)
  from channels_advertised_before_open [of no_params open_throws_grabber]
       channels_advertised_before_open [of no_params tcp_throws_grabber]
       channels_advertised_before_open [of no_params unreachable_grabber]
       p o t u a
  show ?thesis by simp
qed

subsection \<open>Missing parameters\<close>

text \<open>
  Claim C7. For each of the four options, when it is absent the constructor logs the
  warning that names the option and its default, and otherwise behaves exactly as if the
  default had been set: same result, and the same events once the warning is removed.
  An absent frame label gives the node the label \<^verbatim>\<open>ensenso_optical_frame\<close>. Whatever the
  parameter server holds, the construction completes unless a call on the grabber
  throws.
\<close>

theorem missing_parameter_defaults:
  "(ps ''serial_no'' = None \<longrightarrow>
      not_found ''serial_no'' ''150533'' \<in> set (snd (HandeyeCalibration_ctor ps g))
      \<and> fst (HandeyeCalibration_ctor ps g)
          = fst (HandeyeCalibration_ctor (ps(''serial_no'' \<mapsto> XString ''150533'')) g)
      \<and> remove1 (not_found ''serial_no'' ''150533'') (snd (HandeyeCalibration_ctor ps g))
          = snd (HandeyeCalibration_ctor (ps(''serial_no'' \<mapsto> XString ''150533'')) g))
   \<and> (ps ''camera_frame_id'' = None \<longrightarrow>
      not_found ''camera_frame_id'' ''ensenso_optical_frame''
        \<in> set (snd (HandeyeCalibration_ctor ps g))
      \<and> fst (HandeyeCalibration_ctor ps g)
          = fst (HandeyeCalibration_ctor
                  (ps(''camera_frame_id'' \<mapsto> XString ''ensenso_optical_frame'')) g)
      \<and> remove1 (not_found ''camera_frame_id'' ''ensenso_optical_frame'')
            (snd (HandeyeCalibration_ctor ps g))
          = snd (HandeyeCalibration_ctor
                  (ps(''camera_frame_id'' \<mapsto> XString ''ensenso_optical_frame'')) g)
      \<and> (\<forall>this. fst (HandeyeCalibration_ctor ps g) = Inr this \<longrightarrow>
            camera_frame_id this = ''ensenso_optical_frame''))
   \<and> (ps ''front_light'' = None \<longrightarrow>
      not_found ''front_light'' ''0'' \<in> set (snd (HandeyeCalibration_ctor ps g))
      \<and> fst (HandeyeCalibration_ctor ps g)
          = fst (HandeyeCalibration_ctor (ps(''front_light'' \<mapsto> XBool False)) g)
      \<and> remove1 (not_found ''front_light'' ''0'') (snd (HandeyeCalibration_ctor ps g))
          = snd (HandeyeCalibration_ctor (ps(''front_light'' \<mapsto> XBool False)) g))
   \<and> (ps ''projector'' = None \<longrightarrow>
      not_found ''projector'' ''0'' \<in> set (snd (HandeyeCalibration_ctor ps g))
      \<and> fst (HandeyeCalibration_ctor ps g)
          = fst (HandeyeCalibration_ctor (ps(''projector'' \<mapsto> XBool False)) g)
      \<and> remove1 (not_found ''projector'' ''0'') (snd (HandeyeCalibration_ctor ps g))
          = snd (HandeyeCalibration_ctor (ps(''projector'' \<mapsto> XBool False)) g))
   \<and> ((\<forall>c. command g c \<noteq> Thrown) \<longrightarrow> \<not> isl (fst (HandeyeCalibration_ctor ps g)))"
proof (intro conjI impI allI)
  assume a: "ps ''serial_no'' = None"
  then show "not_found ''serial_no'' ''150533'' \<in> set (snd (HandeyeCalibration_ctor ps g))"
    by (simp add: HandeyeCalibration_ctor_def Let_def param_string_def hasParam_def)
  from a show "fst (HandeyeCalibration_ctor ps g)
          = fst (HandeyeCalibration_ctor (ps(''serial_no'' \<mapsto> XString ''150533'')) g)"
    by (simp add: HandeyeCalibration_ctor_def Let_def param_string_def param_bool_def hasParam_def)
  from a show "remove1 (not_found ''serial_no'' ''150533'') (snd (HandeyeCalibration_ctor ps g))
          = snd (HandeyeCalibration_ctor (ps(''serial_no'' \<mapsto> XString ''150533'')) g)"
    by (simp add: HandeyeCalibration_ctor_def Let_def param_string_def param_bool_def hasParam_def
        del: run_calls.simps)
next
  assume a: "ps ''camera_frame_id'' = None"
  then show "not_found ''camera_frame_id'' ''ensenso_optical_frame''
        \<in> set (snd (HandeyeCalibration_ctor ps g))"
    by (simp add: HandeyeCalibration_ctor_def Let_def param_string_def hasParam_def)
  from a show "fst (HandeyeCalibration_ctor ps g)
          = fst (HandeyeCalibration_ctor
                  (ps(''camera_frame_id'' \<mapsto> XString ''ensenso_optical_frame'')) g)"
    by (simp add: HandeyeCalibration_ctor_def Let_def param_string_def param_bool_def hasParam_def)
  from a show "remove1 (not_found ''camera_frame_id'' ''ensenso_optical_frame'')
            (snd (HandeyeCalibration_ctor ps g))
          = snd (HandeyeCalibration_ctor
                  (ps(''camera_frame_id'' \<mapsto> XString ''ensenso_optical_frame'')) g)"
    by (simp add: HandeyeCalibration_ctor_def Let_def param_string_def param_bool_def hasParam_def
        not_found_def del: run_calls.simps)
  fix this assume "fst (HandeyeCalibration_ctor ps g) = Inr this"
  from ctor_node [OF this] a show "camera_frame_id this = ''ensenso_optical_frame''"
    by (simp add: param_string_def)
next
  assume a: "ps ''front_light'' = None"
  then show "not_found ''front_light'' ''0'' \<in> set (snd (HandeyeCalibration_ctor ps g))"
    by (simp add: HandeyeCalibration_ctor_def Let_def param_bool_def hasParam_def show_bool_def)
  from a show "fst (HandeyeCalibration_ctor ps g)
          = fst (HandeyeCalibration_ctor (ps(''front_light'' \<mapsto> XBool False)) g)"
    by (simp add: HandeyeCalibration_ctor_def Let_def param_string_def param_bool_def hasParam_def)
  from a show "remove1 (not_found ''front_light'' ''0'') (snd (HandeyeCalibration_ctor ps g))
          = snd (HandeyeCalibration_ctor (ps(''front_light'' \<mapsto> XBool False)) g)"
    by (simp add: HandeyeCalibration_ctor_def Let_def param_string_def param_bool_def hasParam_def
        not_found_def show_bool_def del: run_calls.simps)
next
  assume a: "ps ''projector'' = None"
  then show "not_found ''projector'' ''0'' \<in> set (snd (HandeyeCalibration_ctor ps g))"
    by (simp add: HandeyeCalibration_ctor_def Let_def param_bool_def hasParam_def show_bool_def)
  from a show "fst (HandeyeCalibration_ctor ps g)
          = fst (HandeyeCalibration_ctor (ps(''projector'' \<mapsto> XBool False)) g)"
    by (simp add: HandeyeCalibration_ctor_def Let_def param_string_def param_bool_def hasParam_def)
  from a show "remove1 (not_found ''projector'' ''0'') (snd (HandeyeCalibration_ctor ps g))
          = snd (HandeyeCalibration_ctor (ps(''projector'' \<mapsto> XBool False)) g)"
    by (simp add: HandeyeCalibration_ctor_def Let_def param_string_def param_bool_def hasParam_def
        not_found_def show_bool_def del: run_calls.simps)
next
  assume "\<forall>c. command g c \<noteq> Thrown"
  then show "\<not> isl (fst (HandeyeCalibration_ctor ps g))"
    by (simp add: HandeyeCalibration_ctor_def Let_def)
qed

text \<open>
  From an empty parameter server and a grabber whose calls succeed: four warnings, and
  the node with the default frame label.
\<close>

theorem missing_parameter_defaults_witness:
  "no_params ''serial_no'' = None \<and> no_params ''camera_frame_id'' = None
   \<and> no_params ''front_light'' = None \<and> no_params ''projector'' = None
   \<and> Warn ''Parameter [~serial_no] not found, using default: 150533''
        \<in> set (snd (HandeyeCalibration_ctor no_params good_grabber))
   \<and> Warn ''Parameter [~camera_frame_id] not found, using default: ensenso_optical_frame''
        \<in> set (snd (HandeyeCalibration_ctor no_params good_grabber))
   \<and> Warn ''Parameter [~front_light] not found, using default: 0''
        \<in> set (snd (HandeyeCalibration_ctor no_params good_grabber))
   \<and> Warn ''Parameter [~projector] not found, using default: 0''
        \<in> set (snd (HandeyeCalibration_ctor no_params good_grabber))
   \<and> fst (HandeyeCalibration_ctor no_params good_grabber) = Inr default_node
   \<and> camera_frame_id default_node = ''ensenso_optical_frame''
   \<and> \<not> isl (fst (HandeyeCalibration_ctor no_params good_grabber))"
proof -
  have n: "no_params ''serial_no'' = None" "no_params ''camera_frame_id'' = None"
          "no_params ''front_light'' = None" "no_params ''projector'' = None"
    by (simp_all add: no_params_def)
  have a: "\<forall>c. command good_grabber c \<noteq> Thrown"
    by (simp add: good_grabber_def all_done_def)
  note d = ctor_default_node
  from missing_parameter_defaults [of no_params good_grabber] n a
  have "not_found ''serial_no'' ''150533''
          \<in> set (snd (HandeyeCalibration_ctor no_params good_grabber))
      \<and> not_found ''camera_frame_id'' ''ensenso_optical_frame''
          \<in> set (snd (HandeyeCalibration_ctor no_params good_grabber))
      \<and> not_found ''front_light'' ''0''
          \<in> set (snd (HandeyeCalibration_ctor no_params good_grabber))
      \<and> not_found ''projector'' ''0''
          \<in> set (snd (HandeyeCalibration_ctor no_params good_grabber))
      \<and> (\<forall>this. fst (HandeyeCalibration_ctor no_params good_grabber) = Inr this \<longrightarrow>
            camera_frame_id this = ''ensenso_optical_frame'')
      \<and> \<not> isl (fst (HandeyeCalibration_ctor no_params good_grabber))"
    by blast
  with n d show ?thesis by (simp add: not_found_def)
qed

subsection \<open>Order of emission\<close>

text \<open>
  Claim C8. When the callback runs its whole body (neither intrinsics query throws), a
  node built by the constructor emits exactly five publications, in this order: the left
  raw image with the left intrinsics, the right raw image with the right intrinsics, the
  left rectified image, the right rectified image, the cloud; each image is the
  conversion of the corresponding buffer (\<open>any\<close> stands for the time of conversion,
  which the body of the message does not depend on).
\<close>

theorem emission_order:
  assumes "fst (HandeyeCalibration_ctor ps g0) = Inr this"
      and "fst (getCameraInfo g ''Left'') \<noteq> Thrown"
      and "fst (getCameraInfo g ''Right'') \<noteq> Thrown"
  shows "map published_by (publications (fst (snd (grabberCallback this g ord now t))))
           = [[l_raw_pub this], [r_raw_pub this], [l_rectified_pub this],
              [r_rectified_pub this], [cloud_pub this]]
     \<and> map topic (concat (map published_by (fst (snd (grabberCallback this g ord now t)))))
           = [''left/image_raw'', ''right/image_raw'', ''left/image_rect'',
              ''right/image_rect'', ''depth/points'']
     \<and> map (\<lambda>e. (map body (images_of e), calibrations_of e, map points (clouds_of e)))
           (publications (fst (snd (grabberCallback this g ord now t))))
           = [([body (toImageMsg (fst (rawimages t)) any)],
               [calibration (snd (getCameraInfo g ''Left''))], []),
              ([body (toImageMsg (snd (rawimages t)) any)],
               [calibration (snd (getCameraInfo g ''Right''))], []),
              ([body (toImageMsg (fst (rectifiedimages t)) any)], [], []),
              ([body (toImageMsg (snd (rectifiedimages t)) any)], [], []),
              ([], [], [points (cloud t)])]"
proof -
  note node = ctor_node [OF assms(1)]
  note run = grabberCallback_returns [OF assms(2,3), of this ord now t]
  have "map published_by (publications (fst (snd (grabberCallback this g ord now t))))
           = [[l_raw_pub this], [r_raw_pub this], [l_rectified_pub this],
              [r_rectified_pub this], [cloud_pub this]]"
    by (simp add: run publications_def publish_camera_def)
  moreover
  have "map topic (concat (map published_by (fst (snd (grabberCallback this g ord now t)))))
           = [''left/image_raw'', ''right/image_raw'', ''left/image_rect'',
              ''right/image_rect'', ''depth/points'']"
  proof -
    have "topic (l_raw_pub this) = ''left/image_raw''"
      using arg_cong [OF node, of l_raw_pub] by simp
    moreover have "topic (r_raw_pub this) = ''right/image_raw''"
      using arg_cong [OF node, of r_raw_pub] by simp
    moreover have "topic (l_rectified_pub this) = ''left/image_rect''"
      using arg_cong [OF node, of l_rectified_pub] by simp
    moreover have "topic (r_rectified_pub this) = ''right/image_rect''"
      using arg_cong [OF node, of r_rectified_pub] by simp
    moreover have "topic (cloud_pub this) = ''depth/points''"
      using arg_cong [OF node, of cloud_pub] by simp
    ultimately show ?thesis by (simp add: run publish_camera_def)
  qed
  moreover
  have "map (\<lambda>e. (map body (images_of e), calibrations_of e, map points (clouds_of e)))
           (publications (fst (snd (grabberCallback this g ord now t))))
           = [([body (toImageMsg (fst (rawimages t)) any)],
               [calibration (snd (getCameraInfo g ''Left''))], []),
              ([body (toImageMsg (snd (rawimages t)) any)],
               [calibration (snd (getCameraInfo g ''Right''))], []),
              ([body (toImageMsg (fst (rectifiedimages t)) any)], [], []),
              ([body (toImageMsg (snd (rectifiedimages t)) any)], [], []),
              ([], [], [points (cloud t)])]"
    by (simp add: run publications_def publish_camera_def raw_args_image body_def
        toImageMsg_def CvImage_toImageMsg_def Let_def split: prod.splits)
  ultimately show ?thesis by simp
qed

text \<open>
  On the sample triple: the five topics in order, the left record before the right
  one, the cloud last.
\<close>

theorem emission_order_witness:
  "fst (HandeyeCalibration_ctor no_params good_grabber) = Inr default_node
   \<and> fst (getCameraInfo good_grabber ''Left'') = Done
   \<and> fst (getCameraInfo good_grabber ''Right'') = Done
   \<and> map topic (concat (map published_by
        (fst (snd (grabberCallback default_node good_grabber RightToLeft ticking sample_triple)))))
       = [''left/image_raw'', ''right/image_raw'', ''left/image_rect'',
          ''right/image_rect'', ''depth/points'']
   \<and> map calibrations_of (publications
        (fst (snd (grabberCallback default_node good_grabber RightToLeft ticking sample_triple))))
       = [[''Left''], [''Right''], [], [], []]
   \<and> map (\<lambda>e. map points (clouds_of e)) (publications
        (fst (snd (grabberCallback default_node good_grabber RightToLeft ticking sample_triple))))
       = [[], [], [], [], [[11, 12]]]"
proof -
  note d = ctor_default_node
  have l: "fst (getCameraInfo good_grabber ''Left'') = Done"
    and r: "fst (getCameraInfo good_grabber ''Right'') = Done"
    and c: "calibration (snd (getCameraInfo good_grabber ''Left'')) = ''Left''"
           "calibration (snd (getCameraInfo good_grabber ''Right'')) = ''Right''"
    by (simp_all add: good_grabber_def answering_def blank_info_def)
  have p: "points (cloud sample_triple) = [11, 12]"
    by (simp add: sample_triple_def sample_cloud_def)
  have "fst (getCameraInfo good_grabber ''Left'') \<noteq> Thrown"
    and "fst (getCameraInfo good_grabber ''Right'') \<noteq> Thrown"
    using l r by simp_all
  note e = emission_order [OF d this, of RightToLeft ticking sample_triple "ticking 0"]
  from e have 1: "map topic (concat (map published_by
        (fst (snd (grabberCallback default_node good_grabber RightToLeft ticking sample_triple)))))
       = [''left/image_raw'', ''right/image_raw'', ''left/image_rect'',
          ''right/image_rect'', ''depth/points'']"
    by blast
  from e have "map (\<lambda>e. (map body (images_of e), calibrations_of e, map points (clouds_of e)))
           (publications (fst (snd (grabberCallback default_node good_grabber RightToLeft ticking
              sample_triple))))
           = [([body (toImageMsg (fst (rawimages sample_triple)) (ticking 0))],
               [calibration (snd (getCameraInfo good_grabber ''Left''))], []),
              ([body (toImageMsg (snd (rawimages sample_triple)) (ticking 0))],
               [calibration (snd (getCameraInfo good_grabber ''Right''))], []),
              ([body (toImageMsg (fst (rectifiedimages sample_triple)) (ticking 0))], [], []),
              ([body (toImageMsg (snd (rectifiedimages sample_triple)) (ticking 0))], [], []),
              ([], [], [points (cloud sample_triple)])]"
    by blast
  then have 2: "map ((\<lambda>x. fst (snd x)) \<circ> (\<lambda>e. (map body (images_of e), calibrations_of e, map points (clouds_of e))))
           (publications (fst (snd (grabberCallback default_node good_grabber RightToLeft ticking
              sample_triple)))) = [[''Left''], [''Right''], [], [], []]"
    and 3: "map ((\<lambda>x. snd (snd x)) \<circ> (\<lambda>e. (map body (images_of e), calibrations_of e, map points (clouds_of e))))
           (publications (fst (snd (grabberCallback default_node good_grabber RightToLeft ticking
              sample_triple)))) = [[], [], [], [], [[11, 12]]]"
    unfolding map_map [symmetric] by (simp_all add: c p)
  from 1 2 3 d l r show ?thesis by (simp add: comp_def)
qed

subsection \<open>Retained delivery of the cloud\<close>

text \<open>
  Claim C9. The constructor creates the cloud publisher latched and the four image
  publishers unlatched. So after a callback has run its whole body, and whatever was
  published before it, a consumer that attaches to the cloud channel later, with no
  publication in between, receives the cloud of that callback; a consumer that attaches
  late to one of the four image channels receives nothing, whatever has been published.
\<close>

theorem cloud_channel_retained:
  assumes "fst (HandeyeCalibration_ctor ps g0) = Inr this"
      and "fst (getCameraInfo g ''Left'') \<noteq> Thrown"
      and "fst (getCameraInfo g ''Right'') \<noteq> Thrown"
      and "list_all (\<lambda>e. published_by e = []) later"
  shows "late_subscriber (cloud_pub this)
           (earlier @ fst (snd (grabberCallback this g ord now t)) @ later)
         = [CloudMsg ((cloud t)\<lparr>cloud_header :=
              (cloud_header (cloud t))\<lparr>pcl_frame_id := camera_frame_id this\<rparr>\<rparr>)]
     \<and> late_subscriber (l_raw_pub this) es = []
     \<and> late_subscriber (r_raw_pub this) es = []
     \<and> late_subscriber (l_rectified_pub this) es = []
     \<and> late_subscriber (r_rectified_pub this) es = []"
proof -
  note node = ctor_node [OF assms(1)]
  have l: "latch (cloud_pub this)" using arg_cong [OF node, of cloud_pub] by simp
  have n: "\<not> latch (l_raw_pub this)" "\<not> latch (r_raw_pub this)"
          "\<not> latch (l_rectified_pub this)" "\<not> latch (r_rectified_pub this)"
    using arg_cong [OF node, of l_raw_pub] arg_cong [OF node, of r_raw_pub]
      arg_cong [OF node, of l_rectified_pub] arg_cong [OF node, of r_rectified_pub]
    by simp_all
  from assms(4) have q: "list_all (\<lambda>e. published_on (cloud_pub this) e = []) later"
    by (induction later) (auto simp add: no_publication_on)
  let ?c = "(cloud t)\<lparr>cloud_header :=
              (cloud_header (cloud t))\<lparr>pcl_frame_id := camera_frame_id this\<rparr>\<rparr>"
  let ?T = "fst (snd (grabberCallback this g ord now t))"
  have tr: "?T = butlast ?T @ [PublishCloud (cloud_pub this) ?c]"
    by (simp add: grabberCallback_returns [OF assms(2,3)])
  have eq: "earlier @ ?T @ later
        = (earlier @ butlast ?T) @ PublishCloud (cloud_pub this) ?c # later"
    using tr by (metis append.assoc append_Cons append_Nil)
  have "late_subscriber (cloud_pub this) (earlier @ ?T @ later)
        = late_subscriber (cloud_pub this)
            ((earlier @ butlast ?T) @ PublishCloud (cloud_pub this) ?c # later)"
    by (simp only: eq)
  also have "\<dots> = published_on (cloud_pub this) (PublishCloud (cloud_pub this) ?c)"
    by (rule late_subscriber_latched [OF l _ q]) simp
  also have "\<dots> = [CloudMsg ?c]"
    by simp
  finally have "late_subscriber (cloud_pub this) (earlier @ ?T @ later) = [CloudMsg ?c]" .
  with n show ?thesis by (simp add: late_subscriber_def)
qed

text \<open>
  After one callback on the sample triple, followed by a query, a late subscriber of
  the cloud channel receives the relabelled sample cloud, and a late subscriber of the
  left raw channel nothing.
\<close>

theorem cloud_channel_retained_witness:
  "fst (HandeyeCalibration_ctor no_params good_grabber) = Inr default_node
   \<and> fst (getCameraInfo good_grabber ''Left'') = Done
   \<and> fst (getCameraInfo good_grabber ''Right'') = Done
   \<and> late_subscriber (cloud_pub default_node)
        (fst (snd (grabberCallback default_node good_grabber LeftToRight frozen sample_triple))
         @ [Query ''Left''])
       = [CloudMsg (sample_cloud\<lparr>cloud_header :=
            \<lparr>pcl_seq = 3, pcl_stamp = 1000, pcl_frame_id = ''ensenso_optical_frame''\<rparr>\<rparr>)]
   \<and> late_subscriber (l_raw_pub default_node)
        (fst (snd (grabberCallback default_node good_grabber LeftToRight frozen sample_triple)))
       = []"
proof -
  note d = ctor_default_node
  have l: "fst (getCameraInfo good_grabber ''Left'') = Done"
    and r: "fst (getCameraInfo good_grabber ''Right'') = Done"
    by (simp_all add: good_grabber_def answering_def)
  have c: "(cloud sample_triple)\<lparr>cloud_header :=
              (cloud_header (cloud sample_triple))\<lparr>pcl_frame_id := camera_frame_id default_node\<rparr>\<rparr>
           = sample_cloud\<lparr>cloud_header :=
            \<lparr>pcl_seq = 3, pcl_stamp = 1000, pcl_frame_id = ''ensenso_optical_frame''\<rparr>\<rparr>"
    by (simp add: sample_triple_def sample_cloud_def default_node_def)
  have q: "list_all (\<lambda>e. published_by e = []) [Query ''Left'' :: (string, nat) event]"
    by simp
  have "fst (getCameraInfo good_grabber ''Left'') \<noteq> Thrown"
    and "fst (getCameraInfo good_grabber ''Right'') \<noteq> Thrown"
    using l r by simp_all
  from cloud_channel_retained [OF d this q, of "[]" LeftToRight frozen sample_triple
      "fst (snd (grabberCallback default_node good_grabber LeftToRight frozen sample_triple))"]
    c d l r
  show ?thesis by simp
qed

subsection \<open>Effect on the borrowed frame triple\<close>

text \<open>
  Claim C10. The callback leaves the frame triple as it received it, except that, when
  it runs its whole body, the frame label of the cloud's header is set to the configured
  one: the raw and rectified buffers and the points of the cloud are unchanged, and the
  cloud published is the borrowed cloud with its new label.
\<close>

theorem only_cloud_label_is_set:
  "snd (snd (grabberCallback this g ord now t))
     = (if isl (fst (grabberCallback this g ord now t)) then t
        else t\<lparr>cloud := (cloud t)\<lparr>cloud_header :=
               (cloud_header (cloud t))\<lparr>pcl_frame_id := camera_frame_id this\<rparr>\<rparr>\<rparr>)
   \<and> rawimages (snd (snd (grabberCallback this g ord now t))) = rawimages t
   \<and> rectifiedimages (snd (snd (grabberCallback this g ord now t))) = rectifiedimages t
   \<and> points (cloud (snd (snd (grabberCallback this g ord now t)))) = points (cloud t)
   \<and> concat (map clouds_of (fst (snd (grabberCallback this g ord now t))))
       = (if isl (fst (grabberCallback this g ord now t)) then []
          else [cloud (snd (snd (grabberCallback this g ord now t)))])"
  by (simp add: grabberCallback_def Let_def publish_camera_def)

text \<open>
  On the sample triple the four buffers and the two points come back as they went in.
\<close>

theorem only_cloud_label_is_set_witness:
  "rawimages (snd (snd (grabberCallback default_node good_grabber LeftToRight ticking sample_triple)))
     = (colour_image, odd_image)
   \<and> rectifiedimages (snd (snd (grabberCallback default_node good_grabber LeftToRight ticking
        sample_triple))) = (odd_image, colour_image)
   \<and> points (cloud (snd (snd (grabberCallback default_node good_grabber LeftToRight ticking
        sample_triple)))) = [11, 12]"
proof -
  have "rawimages sample_triple = (colour_image, odd_image)"
    and "rectifiedimages sample_triple = (odd_image, colour_image)"
    and "points (cloud sample_triple) = [11, 12]"
    by (simp_all add: sample_triple_def sample_cloud_def)
  with only_cloud_label_is_set [of default_node good_grabber LeftToRight ticking sample_triple]
  show ?thesis by simp
qed

end
